theory Spec2Isabelle
  imports Main
begin

section \<open>Values, exceptions and the built-in coercions\<close>

text \<open>
  The rows that reach the poem class come out of the result normaliser: every field of a
  row is a string, or an integer where the normaliser was asked to coerce the field.
  \<open>PInt\<close> is Python's unbounded \<open>int\<close>, \<open>PStr\<close> is \<open>str\<close> (a list of characters;
  the model covers ASCII text). Python's \<open>==\<close> on these two types is structural and an
  \<open>int\<close> never equals a \<open>str\<close>, so it is HOL's equality on \<open>pyval\<close>.
\<close>

datatype pyval = PInt int | PStr string

text \<open>
  Exceptions are values. \<open>Exception\<close> carries the message of a \<open>raise Exception("...")\<close>
  of the source; \<open>KeyError\<close>, \<open>IndexError\<close> and \<open>ValueError\<close> are what a missing
  dictionary key, an index out of range and \<open>int()\<close> of a non-numeral raise;
  \<open>StoreError\<close> stands for whatever the query objects and the database connection
  raise (their modules are outside the files at hand).
\<close>

datatype error =
    Exception string
  | KeyError string
  | IndexError
  | ValueError
  | StoreError string

text \<open>Truthiness, as \<open>if x:\<close> tests it: \<open>0\<close> and the empty string are false.\<close>

fun truthy :: "pyval \<Rightarrow> bool" where
  "truthy (PInt n) = (n \<noteq> 0)"
| "truthy (PStr s) = (s \<noteq> [])"

subsection \<open>\<open>int(x)\<close>\<close>

text \<open>
  \<open>int\<close> of a string strips surrounding whitespace, reads an optional sign and then
  decimal digits, where single underscores may stand between digits; anything else
  raises \<open>ValueError\<close>. \<open>int\<close> of an integer is that integer. The whitespace
  \<open>int\<close> strips from an ASCII string is the space and the characters 9 to 13 (tab,
  line feed, vertical tab, form feed, carriage return); the separators 28 to 31, which
  \<open>str.isspace\<close> accepts, are not stripped, and a string holding one is no numeral.
\<close>

definition is_space :: "char \<Rightarrow> bool" where
  "is_space c = (let n = (of_char c :: nat) in (9 \<le> n \<and> n \<le> 13) \<or> n = 32)"

definition is_digit :: "char \<Rightarrow> bool" where
  "is_digit c = (let n = (of_char c :: nat) in 48 \<le> n \<and> n \<le> 57)"

definition digit_val :: "char \<Rightarrow> nat" where
  "digit_val c = of_char c - 48"

definition strip :: "string \<Rightarrow> string" where
  "strip s = rev (dropWhile is_space (rev (dropWhile is_space s)))"

fun parse_digits :: "nat \<Rightarrow> string \<Rightarrow> nat option" where
  "parse_digits acc [] = Some acc"
| "parse_digits acc (c # cs) =
     (if c = CHR ''_'' then
        (case cs of
           [] \<Rightarrow> None
         | d # _ \<Rightarrow> if is_digit d then parse_digits acc cs else None)
      else if is_digit c then parse_digits (acc * 10 + digit_val c) cs
      else None)"

definition parse_unsigned :: "string \<Rightarrow> nat option" where
  "parse_unsigned s =
     (case s of
        [] \<Rightarrow> None
      | c # _ \<Rightarrow> if is_digit c then parse_digits 0 s else None)"

definition parse_int :: "string \<Rightarrow> int option" where
  "parse_int s =
     (case strip s of
        [] \<Rightarrow> None
      | c # cs \<Rightarrow>
          if c = CHR ''-'' then map_option (\<lambda>n. - int n) (parse_unsigned cs)
          else if c = CHR ''+'' then map_option int (parse_unsigned cs)
          else map_option int (parse_unsigned (c # cs)))"

fun py_int :: "pyval \<Rightarrow> error + int" where
  "py_int (PInt n) = Inr n"
| "py_int (PStr s) = (case parse_int s of None \<Rightarrow> Inl ValueError | Some n \<Rightarrow> Inr n)"

subsection \<open>\<open>str(x)\<close>\<close>

fun show_nat :: "nat \<Rightarrow> string" where
  "show_nat n =
     (if n < 10 then [char_of (48 + n)]
      else show_nat (n div 10) @ [char_of (48 + n mod 10)])"

definition show_int :: "int \<Rightarrow> string" where
  "show_int i = (if i < 0 then CHR ''-'' # show_nat (nat (- i)) else show_nat (nat i))"

fun py_str :: "pyval \<Rightarrow> pyval" where
  "py_str (PInt n) = PStr (show_int n)"
| "py_str (PStr s) = PStr s"

section \<open>The stanza grouping engine\<close>

text \<open>A row of a simplified result: a dictionary from field names to values.\<close>

type_synonym binding = "string \<rightharpoonup> pyval"

text \<open>\<open>binding[key]\<close>: a missing key raises \<open>KeyError\<close>.\<close>

definition getitem :: "binding \<Rightarrow> string \<Rightarrow> error + pyval" where
  "getitem b k = (case b k of None \<Rightarrow> Inl (KeyError k) | Some v \<Rightarrow> Inr v)"

text \<open>
  The \<open>if\<close>/\<open>elif\<close>/\<open>else\<close> on \<open>value_datatype\<close> (lines 374 to 379), applied to the value
  the row holds: \<open>int(...)\<close> for the flags \<open>int\<close> and \<open>Integer\<close>, \<open>str(...)\<close> for
  \<open>str\<close> and \<open>String\<close>, the value as it is for every other flag.
\<close>

definition coerce :: "string \<Rightarrow> pyval \<Rightarrow> error + pyval" where
  "coerce value_datatype v =
     (if value_datatype = ''int'' \<or> value_datatype = ''Integer'' then
        (case py_int v of Inl e \<Rightarrow> Inl e | Inr n \<Rightarrow> Inr (PInt n))
      else if value_datatype = ''str'' \<or> value_datatype = ''String'' then Inr (py_str v)
      else Inr v)"

text \<open>
  Lines 372 to 379: the loop body first reads the stanza number of the row, then the
  value, and coerces the value. Either read can raise \<open>KeyError\<close>, the coercion
  \<open>ValueError\<close>.
\<close>

definition read_row :: "string \<Rightarrow> string \<Rightarrow> string \<Rightarrow> binding \<Rightarrow> error + (pyval \<times> pyval)" where
  "read_row stanza_number_field_key value_field_key value_datatype b =
     (case getitem b stanza_number_field_key of
        Inl e \<Rightarrow> Inl e
      | Inr stanza_number \<Rightarrow>
          (case getitem b value_field_key of
             Inl e \<Rightarrow> Inl e
           | Inr raw \<Rightarrow>
               (case coerce value_datatype raw of
                  Inl e \<Rightarrow> Inl e
                | Inr v \<Rightarrow> Inr (stanza_number, v))))"

text \<open>
  The loop of lines 370 to 396 over the state \<open>(grouped_results, stanza, current_stanza)\<close>.
  A row of the current stanza is appended to the accumulator. Any other row closes the
  accumulator, which is emitted only if \<open>int(current_stanza) > 0\<close>, and opens a new one
  holding the row's value. \<open>int(current_stanza)\<close> raises on a marker that is no numeral.
\<close>

type_synonym group_state = "pyval list list \<times> pyval list \<times> pyval"

fun group_loop :: "string \<Rightarrow> string \<Rightarrow> string \<Rightarrow> binding list \<Rightarrow> group_state \<Rightarrow> error + group_state" where
  "group_loop sk vk dt [] st = Inr st"
| "group_loop sk vk dt (b # bs) (grouped_results, stanza, current_stanza) =
     (case read_row sk vk dt b of
        Inl e \<Rightarrow> Inl e
      | Inr (stanza_number, v) \<Rightarrow>
          if current_stanza = stanza_number then
            group_loop sk vk dt bs (grouped_results, stanza @ [v], current_stanza)
          else
            (case py_int current_stanza of
               Inl e \<Rightarrow> Inl e
             | Inr n \<Rightarrow>
                 group_loop sk vk dt bs
                   (if n > 0 then grouped_results @ [stanza] else grouped_results,
                    [v], stanza_number)))"

text \<open>
  \<open>__group_feature_by_stanzas\<close>: the loop starts from no results, an empty accumulator
  and the marker \<open>0\<close>; the last accumulator is appended after the loop (line 399).
\<close>

definition group_feature_by_stanzas ::
  "binding list \<Rightarrow> string \<Rightarrow> string \<Rightarrow> string \<Rightarrow> error + pyval list list" where
  "group_feature_by_stanzas simplified_sparql_results stanza_number_field_key value_field_key
       value_datatype =
     (case group_loop stanza_number_field_key value_field_key value_datatype
             simplified_sparql_results ([], [], PInt 0) of
        Inl e \<Rightarrow> Inl e
      | Inr (grouped_results, stanza, current_stanza) \<Rightarrow> Inr (grouped_results @ [stanza]))"

text \<open>
  The partition the specification describes, written independently of the loop: the
  values of a sequence of (stanza number, value) pairs, cut wherever the stanza number
  changes.
\<close>

function stanza_runs :: "(pyval \<times> pyval) list \<Rightarrow> pyval list list" where
  "stanza_runs [] = []"
| "stanza_runs ((k, v) # ps) =
     (v # map snd (takeWhile (\<lambda>p. fst p = k) ps)) # stanza_runs (dropWhile (\<lambda>p. fst p = k) ps)"
  by pat_completeness auto
termination
  by (relation "measure length") (auto simp: le_imp_less_Suc length_dropWhile_le)

text \<open>A stanza number that is not the sentinel: \<open>int(...)\<close> of it is positive.\<close>

definition positive_stanza :: "pyval \<Rightarrow> bool" where
  "positive_stanza k = (case py_int k of Inl e \<Rightarrow> False | Inr n \<Rightarrow> 0 < n)"

text \<open>A row with the two fields the counting queries return, for the examples below.\<close>

definition stanza_row :: "pyval \<Rightarrow> pyval \<Rightarrow> binding" where
  "stanza_row k v = [''StanzaNo'' \<mapsto> k, ''count'' \<mapsto> v]"


section \<open>The poem, its store and its accessors\<close>

text \<open>The query classes of the module \<open>pd_stardog_queries\<close> that the poem class instantiates.\<close>

datatype query =
    PoemTitle | PoemCreationYear | PoemAuthorUris | PoemAutomaticScansionUri
  | PoemCountStanzas | PoemCountLines | PoemCountWords | PoemCountLinesInStanzas
  | PoemRhymeSchemesOfStanzas | PoemCountSyllables | PoemCountSyllablesInStanzas
  | PoemCountWordsInStanzas | PoemGrammaticalStressPatternsInStanzas
  | PoemMetricalPatternsInStanzas

text \<open>
  The queries handed to the store so far, each with the parameters injected into it.
\<close>

type_synonym history = "(query \<times> string list) list"

text \<open>
  The database connection (class \<open>DB\<close>), the query classes and the result normaliser
  live in modules that are not among the source files, so they are a parameter of the
  model. The three calls the poem class makes on a query, \<open>inject(params)\<close>,
  \<open>execute(database)\<close> and \<open>results.simplify(...)\<close>, are one question to the store:
  the answer is an exception or the simplified result, and it may depend on the queries
  executed before. A query that selects one field simplifies to a flat list of values
  (\<open>flat_results\<close>), a query that selects several to a list of rows (\<open>row_results\<close>).
\<close>

record DB =
  flat_results :: "history \<Rightarrow> query \<Rightarrow> string list \<Rightarrow> error + pyval list"
  row_results :: "history \<Rightarrow> query \<Rightarrow> string list \<Rightarrow> error + binding list"

text \<open>
  Serializable structures: \<open>None\<close>, a value, a list, a dictionary (its items in
  insertion order).
\<close>

datatype json = JNone | JVal pyval | JList "json list" | JDict "(string \<times> json) list"

text \<open>An instance of \<open>PostdataAuthor\<close>, as the poem constructs it: from a URI.\<close>

datatype author = PostdataAuthor pyval

text \<open>
  The attributes of \<open>PostdataPoem\<close> (lines 36 to 59; \<open>title\<close> and \<open>creation_year\<close>
  come from the base class). \<open>None\<close> is Python's \<open>None\<close>; a connection that is set
  counts as true in a condition. The field \<open>executed\<close> is
  not an attribute: it is the history of the store the poem is connected to, threaded
  through the methods with the poem.
\<close>

record poem =
  uri :: "string option"
  database :: "DB option"
  poem_id :: "string option"
  name :: "string option"
  poetry_lab_url :: "string option"
  author_uris :: "pyval list option"
  authors :: "author list option"
  automatic_analysis :: "(string \<times> json) list option"
  title :: "pyval option"
  creation_year :: "pyval option"
  executed :: history

text \<open>A method: it returns a value or raises, and leaves the poem in a new state.\<close>

type_synonym 'a action = "poem \<Rightarrow> (error + 'a) \<times> poem"

definition and_then :: "'a action \<Rightarrow> ('a \<Rightarrow> 'b action) \<Rightarrow> 'b action" where
  "and_then m f s = (case m s of (Inl e, s') \<Rightarrow> (Inl e, s') | (Inr v, s') \<Rightarrow> f v s')"

definition map_action :: "('a \<Rightarrow> 'b) \<Rightarrow> 'a action \<Rightarrow> 'b action" where
  "map_action f m = and_then m (\<lambda>v s. (Inr (f v), s))"

text \<open>Truthiness of the optional attributes: \<open>None\<close>, \<open>""\<close>, \<open>[]\<close> and \<open>{}\<close> are false.\<close>

definition truthy_opt :: "pyval option \<Rightarrow> bool" where
  "truthy_opt x = (case x of None \<Rightarrow> False | Some v \<Rightarrow> truthy v)"

definition truthy_list :: "'a list option \<Rightarrow> bool" where
  "truthy_list x = (case x of None \<Rightarrow> False | Some xs \<Rightarrow> xs \<noteq> [])"

text \<open>\<open>xs[0]\<close>, \<open>xs[i]\<close>: an index out of range raises \<open>IndexError\<close>.\<close>

definition index :: "'a list \<Rightarrow> nat \<Rightarrow> error + 'a" where
  "index xs i = (if i < length xs then Inr (xs ! i) else Inl IndexError)"

text \<open>
  The parameter list \<open>[self.uri]\<close> of a query, guarded by \<open>if self.uri:\<close> as everywhere
  in the class.
\<close>

definition uri_param :: "poem \<Rightarrow> error + string" where
  "uri_param s =
     (if truthy_list (uri s) then
        (case uri s of Some u \<Rightarrow> Inr u
         | None \<Rightarrow> Inl (Exception ''No URI of the poem specified. Can not get any attributes.''))
      else Inl (Exception ''No URI of the poem specified. Can not get any attributes.''))"

text \<open>One question to the store; the query joins the history whatever the answer is.\<close>

definition execute_flat :: "DB \<Rightarrow> query \<Rightarrow> string list \<Rightarrow> pyval list action" where
  "execute_flat db q params s =
     (flat_results db (executed s) q params, s\<lparr>executed := executed s @ [(q, params)]\<rparr>)"

definition execute_rows :: "DB \<Rightarrow> query \<Rightarrow> string list \<Rightarrow> binding list action" where
  "execute_rows db q params s =
     (row_results db (executed s) q params, s\<lparr>executed := executed s @ [(q, params)]\<rparr>)"

subsection \<open>Basic metadata\<close>

text \<open>\<open>get_title\<close>, lines 121 to 147.\<close>

definition get_title :: "pyval option action" where
  "get_title s =
     (if truthy_opt (title s) then (Inr (title s), s)
      else
        (case database s of
           None \<Rightarrow> (Inl (Exception ''Database Connection not available.''), s)
         | Some db \<Rightarrow>
             (case uri_param s of
                Inl e \<Rightarrow> (Inl e, s)
              | Inr u \<Rightarrow>
                  (case execute_flat db PoemTitle [u] s of
                     (Inl e, s') \<Rightarrow> (Inl e, s')
                   | (Inr title_list, s') \<Rightarrow>
                       if length title_list = 1 then
                         (Inr (Some (title_list ! 0)), s'\<lparr>title := Some (title_list ! 0)\<rparr>)
                       else (Inl (Exception ''Poem has multiple titles. Not implemented.''), s')))))"

text \<open>\<open>get_creation_year\<close>, lines 149 to 184.\<close>

definition get_creation_year :: "pyval option action" where
  "get_creation_year s =
     (if truthy_opt (creation_year s) then (Inr (creation_year s), s)
      else
        (case database s of
           None \<Rightarrow> (Inl (Exception ''Database Connection not available.''), s)
         | Some db \<Rightarrow>
             (case uri_param s of
                Inl e \<Rightarrow> (Inl e, s)
              | Inr u \<Rightarrow>
                  (case execute_flat db PoemCreationYear [u] s of
                     (Inl e, s') \<Rightarrow> (Inl e, s')
                   | (Inr data, s') \<Rightarrow>
                       if length data = 0 then (Inr None, s'\<lparr>creation_year := None\<rparr>)
                       else if length data = 1 then
                         (Inr (Some (data ! 0)), s'\<lparr>creation_year := Some (data ! 0)\<rparr>)
                       else
                         (Inl (Exception ''Multiple values for creation year. Not implemented.''),
                          s')))))"

text \<open>\<open>get_author_uris\<close>, lines 222 to 250.\<close>

definition get_author_uris :: "pyval list option action" where
  "get_author_uris s =
     (if truthy_list (author_uris s) then (Inr (author_uris s), s)
      else
        (case database s of
           None \<Rightarrow> (Inl (Exception ''Database Connection not available.''), s)
         | Some db \<Rightarrow>
             (case uri_param s of
                Inl e \<Rightarrow> (Inl e, s)
              | Inr u \<Rightarrow>
                  (case execute_flat db PoemAuthorUris [u] s of
                     (Inl e, s') \<Rightarrow> (Inl e, s')
                   | (Inr data, s') \<Rightarrow>
                       if length data = 0 then (Inr None, s'\<lparr>author_uris := None\<rparr>)
                       else (Inr (Some data), s'\<lparr>author_uris := Some data\<rparr>)))))"

text \<open>\<open>str.split(sep)\<close> for a separator of one character.\<close>

fun split :: "char \<Rightarrow> string \<Rightarrow> string list" where
  "split sep [] = [[]]"
| "split sep (c # cs) =
     (if c = sep then [] # split sep cs
      else (case split sep cs of [] \<Rightarrow> [[c]] | w # ws \<Rightarrow> (c # w) # ws))"

text \<open>\<open>__split_uri_in_author_poem_parts\<close>, lines 186 to 200.\<close>

definition split_uri_in_author_poem_parts :: "poem \<Rightarrow> error + string list" where
  "split_uri_in_author_poem_parts s =
     (if truthy_list (uri s) then
        (case uri s of
           None \<Rightarrow> Inl (Exception ''URI of the poem has not been defined.'')
         | Some u \<Rightarrow>
             (case index (split CHR ''_'' u) 1 of
                Inl e \<Rightarrow> Inl e
              | Inr author_part \<Rightarrow>
                  (case index (split CHR ''_'' u) 2 of
                     Inl e \<Rightarrow> Inl e
                   | Inr poem_part \<Rightarrow> Inr [author_part, poem_part])))
      else Inl (Exception ''URI of the poem has not been defined.''))"

text \<open>\<open>get_poetry_lab_url\<close>, lines 202 to 220.\<close>

definition get_poetry_lab_url :: "string \<Rightarrow> string \<Rightarrow> string option action" where
  "get_poetry_lab_url base_url lang s =
     (if truthy_list (poetry_lab_url s) then (Inr (poetry_lab_url s), s)
      else
        (case split_uri_in_author_poem_parts s of
           Inl e \<Rightarrow> (Inl e, s)
         | Inr author_poem \<Rightarrow>
             (let url = base_url @ ''/'' @ lang @ ''/author/'' @ author_poem ! 0
                          @ ''/poetic-work/'' @ author_poem ! 1
              in (Inr (Some url), s\<lparr>poetry_lab_url := Some url\<rparr>))))"

text \<open>\<open>load_authors\<close>, lines 252 to 276.\<close>

definition load_authors :: "bool action" where
  "load_authors s =
     (case (if truthy_list (author_uris s) then (Inr (author_uris s), s) else get_author_uris s) of
        (Inl e, s') \<Rightarrow> (Inl e, s')
      | (Inr _, s') \<Rightarrow>
          if truthy_list (author_uris s') then
            (case author_uris s' of
               Some uris \<Rightarrow> (Inr True, s'\<lparr>authors := Some (map PostdataAuthor uris)\<rparr>)
             | None \<Rightarrow> (Inr False, s'\<lparr>authors := None\<rparr>))
          else (Inr False, s'\<lparr>authors := None\<rparr>))"

subsection \<open>The automatic analysis\<close>

text \<open>\<open>__execute_sparql_query\<close>, lines 319 to 335, with the \<open>simplify\<close> of its caller.\<close>

definition execute_sparql_query :: "query \<Rightarrow> pyval list action" where
  "execute_sparql_query sparql_query s =
     (case database s of
        None \<Rightarrow> (Inl (Exception ''Database Connection not available.''), s)
      | Some db \<Rightarrow>
          (case uri_param s of
             Inl e \<Rightarrow> (Inl e, s)
           | Inr u \<Rightarrow> execute_flat db sparql_query [u] s))"

text \<open>Lines 403 to 454: the first element of the simplified result.\<close>

definition first_of :: "pyval list action \<Rightarrow> pyval action" where
  "first_of m = and_then m (\<lambda>results s. (index results 0, s))"

definition get_automatic_scansion_uri :: "pyval action" where
  "get_automatic_scansion_uri = first_of (execute_sparql_query PoemAutomaticScansionUri)"

definition get_number_of_stanzas :: "pyval action" where
  "get_number_of_stanzas = first_of (execute_sparql_query PoemCountStanzas)"

definition get_number_of_lines :: "pyval action" where
  "get_number_of_lines = first_of (execute_sparql_query PoemCountLines)"

definition get_number_of_words :: "pyval action" where
  "get_number_of_words = first_of (execute_sparql_query PoemCountWords)"

text \<open>Lines 470 to 477 and 530 to 537: the property that selects the kind of syllable.\<close>

definition syllable_type_prop :: "string \<Rightarrow> error + string" where
  "syllable_type_prop syllable_type =
     (if syllable_type = ''metrical'' then Inr ''pdp:hasMetricalSyllable''
      else if syllable_type = ''grammatical'' then Inr ''pdp:hasGrammaticalSyllable''
      else Inl (Exception ''Syllable Type is not valid.''))"

text \<open>\<open>get_number_of_syllables\<close>, lines 456 to 490.\<close>

definition get_number_of_syllables :: "string \<Rightarrow> pyval action" where
  "get_number_of_syllables syllable_type s =
     (case syllable_type_prop syllable_type of
        Inl e \<Rightarrow> (Inl e, s)
      | Inr type_prop \<Rightarrow>
          (case database s of
             None \<Rightarrow> (Inl (Exception ''Database Connection not available.''), s)
           | Some db \<Rightarrow>
               (case uri_param s of
                  Inl e \<Rightarrow> (Inl e, s)
                | Inr u \<Rightarrow> first_of (execute_flat db PoemCountSyllables [u, type_prop]) s)))"

definition get_number_of_lines_in_stanzas :: "pyval list action" where
  "get_number_of_lines_in_stanzas = execute_sparql_query PoemCountLinesInStanzas"

definition get_rhyme_schemes_of_stanzas :: "pyval list action" where
  "get_rhyme_schemes_of_stanzas = execute_sparql_query PoemRhymeSchemesOfStanzas"

text \<open>
  The four methods of lines 517 to 642 differ in the query, its parameters and the
  arguments of the grouping: each checks the connection and the URI, executes the query
  and groups the simplified rows.
\<close>

definition grouped_query ::
  "query \<Rightarrow> string list \<Rightarrow> string \<Rightarrow> string \<Rightarrow> string \<Rightarrow> pyval list list action" where
  "grouped_query q extra stanza_number_field_key value_field_key value_datatype s =
     (case database s of
        None \<Rightarrow> (Inl (Exception ''Database Connection not available.''), s)
      | Some db \<Rightarrow>
          (case uri_param s of
             Inl e \<Rightarrow> (Inl e, s)
           | Inr u \<Rightarrow>
               and_then (execute_rows db q (u # extra))
                 (\<lambda>rows s'. (group_feature_by_stanzas rows stanza_number_field_key
                                value_field_key value_datatype, s')) s))"

definition get_number_of_syllables_in_stanzas :: "string \<Rightarrow> pyval list list action" where
  "get_number_of_syllables_in_stanzas syllable_type s =
     (case syllable_type_prop syllable_type of
        Inl e \<Rightarrow> (Inl e, s)
      | Inr type_prop \<Rightarrow>
          grouped_query PoemCountSyllablesInStanzas [type_prop] ''StanzaNo'' ''count'' ''int'' s)"

definition get_number_of_words_in_stanzas :: "pyval list list action" where
  "get_number_of_words_in_stanzas =
     grouped_query PoemCountWordsInStanzas [] ''StanzaNo'' ''count'' ''int''"

definition get_grammatical_stress_patterns_in_stanzas :: "pyval list list action" where
  "get_grammatical_stress_patterns_in_stanzas =
     grouped_query PoemGrammaticalStressPatternsInStanzas [] ''StanzaNumber''
       ''grammaticalStressPattern'' ''str''"

definition get_metrical_patterns_in_stanzas :: "pyval list list action" where
  "get_metrical_patterns_in_stanzas =
     grouped_query PoemMetricalPatternsInStanzas [] ''StanzaNumber'' ''metricalPattern'' ''str''"

text \<open>Values, lists of values and stanza-grouped values as serializable structures.\<close>

definition jvals :: "pyval list \<Rightarrow> json" where
  "jvals xs = JList (map JVal xs)"

definition jgroups :: "pyval list list \<Rightarrow> json" where
  "jgroups xss = JList (map jvals xss)"

text \<open>
  The keyword arguments of lines 687 to 705 in the order Python evaluates them: first
  \<open>source\<close> (line 688), then the twelve of \<open>dict(...)\<close>, each with its key.
\<close>

definition analysis_steps :: "(string \<times> json action) list" where
  "analysis_steps =
     [(''source'', map_action (\<lambda>u. JDict [(''uri'', JVal u)]) get_automatic_scansion_uri),
      (''numOfStanzas'', map_action JVal get_number_of_stanzas),
      (''numOfLines'', map_action JVal get_number_of_lines),
      (''numOfWords'', map_action JVal get_number_of_words),
      (''numOfLinesInStanzas'', map_action jvals get_number_of_lines_in_stanzas),
      (''rhymeSchemesOfStanzas'', map_action jvals get_rhyme_schemes_of_stanzas),
      (''numOfMetricalSyllables'', map_action JVal (get_number_of_syllables ''metrical'')),
      (''numOfGrammaticalSyllables'', map_action JVal (get_number_of_syllables ''grammatical'')),
      (''numOfMetricalSyllablesInStanzas'',
         map_action jgroups (get_number_of_syllables_in_stanzas ''metrical'')),
      (''numOfGrammaticalSyllablesInStanzas'',
         map_action jgroups (get_number_of_syllables_in_stanzas ''grammatical'')),
      (''numOfWordsInStanzas'', map_action jgroups get_number_of_words_in_stanzas),
      (''grammaticalStressPatternsInStanzas'',
         map_action jgroups get_grammatical_stress_patterns_in_stanzas),
      (''metricalPatternsInStanzas'', map_action jgroups get_metrical_patterns_in_stanzas)]"

text \<open>
  Evaluating the arguments one after the other: the first that raises ends the
  evaluation, and nothing is built.
\<close>

fun collect :: "(string \<times> json action) list \<Rightarrow> (string \<times> json) list action" where
  "collect [] s = (Inr [], s)"
| "collect ((k, m) # rest) s =
     (case m s of
        (Inl e, s') \<Rightarrow> (Inl e, s')
      | (Inr v, s') \<Rightarrow>
          (case collect rest s' of
             (Inl e, s'') \<Rightarrow> (Inl e, s'')
           | (Inr d, s'') \<Rightarrow> (Inr ((k, v) # d), s'')))"

text \<open>
  \<open>get_analysis\<close>, lines 644 to 708 (its parameter \<open>scansion_type\<close> is not used by the
  body): the cached record if there is one, else the record built from all the steps,
  which is cached at line 706.
\<close>

definition get_analysis :: "(string \<times> json) list option action" where
  "get_analysis s =
     (if truthy_list (automatic_analysis s) then (Inr (automatic_analysis s), s)
      else
        (case collect analysis_steps s of
           (Inl e, s') \<Rightarrow> (Inl e, s')
         | (Inr analysis, s') \<Rightarrow>
             (Inr (Some analysis), s'\<lparr>automatic_analysis := Some analysis\<rparr>)))"

subsection \<open>Serialization\<close>

text \<open>\<open>d[key] = value\<close> on a dictionary kept as its items in insertion order.\<close>

fun setitem :: "(string \<times> json) list \<Rightarrow> string \<Rightarrow> json \<Rightarrow> (string \<times> json) list" where
  "setitem [] k v = [(k, v)]"
| "setitem ((k', v') # d) k v = (if k' = k then (k, v) # d else (k', v') # setitem d k v)"

definition jstr :: "string option \<Rightarrow> json" where
  "jstr x = (case x of None \<Rightarrow> JNone | Some s \<Rightarrow> JVal (PStr s))"

text \<open>
  \<open>author.get_metadata()\<close> belongs to the class \<open>PostdataAuthor\<close>, which is not among
  the source files: it is the parameter \<open>author_get_metadata\<close>, which returns the
  metadata or raises and may put queries of its own to the store. The loop of lines 304
  and 305 calls it on every author in turn.
\<close>

type_synonym author_contract = "author \<Rightarrow> history \<Rightarrow> (error + json) \<times> history"

fun authors_metadata :: "author_contract \<Rightarrow> author list \<Rightarrow> json list action" where
  "authors_metadata author_get_metadata [] s = (Inr [], s)"
| "authors_metadata author_get_metadata (a # as) s =
     (case author_get_metadata a (executed s) of
        (Inl e, h) \<Rightarrow> (Inl e, s\<lparr>executed := h\<rparr>)
      | (Inr m, h) \<Rightarrow>
          (case authors_metadata author_get_metadata as (s\<lparr>executed := h\<rparr>) of
             (Inl e, s') \<Rightarrow> (Inl e, s')
           | (Inr ms, s') \<Rightarrow> (Inr (m # ms), s')))"

text \<open>\<open>get_metadata\<close>, lines 278 to 310.\<close>

definition get_metadata :: "author_contract \<Rightarrow> bool \<Rightarrow> bool \<Rightarrow> (string \<times> json) list action" where
  "get_metadata author_get_metadata include_authors include_analysis s =
     (case get_poetry_lab_url ''http://poetry.linhd.uned.es:3000'' ''en'' s of
        (Inl e, s1) \<Rightarrow> (Inl e, s1)
      | (Inr source, s1) \<Rightarrow>
          (let metadata =
                 [(''id'', jstr (poem_id s)), (''uri'', jstr (uri s)), (''name'', jstr (name s)),
                  (''source'', jstr source), (''sourceUri'', JVal (PStr ''POSTDATA Poetry Lab''))]
           in
             (case
                (if include_authors then
                   (case load_authors s1 of
                      (Inl e, s2) \<Rightarrow> (Inl e, s2)
                    | (Inr loaded, s2) \<Rightarrow>
                        if loaded then
                          (case authors_metadata author_get_metadata
                                  (case authors s2 of None \<Rightarrow> [] | Some as \<Rightarrow> as) s2 of
                             (Inl e, s3) \<Rightarrow> (Inl e, s3)
                           | (Inr ms, s3) \<Rightarrow> (Inr (setitem metadata ''authors'' (JList ms)), s3))
                        else (Inr metadata, s2))
                 else (Inr metadata, s1)) of
                (Inl e, s4) \<Rightarrow> (Inl e, s4)
              | (Inr metadata, s4) \<Rightarrow>
                  if include_analysis then
                    (case get_analysis s4 of
                       (Inl e, s5) \<Rightarrow> (Inl e, s5)
                     | (Inr analysis, s5) \<Rightarrow>
                         (Inr (setitem metadata ''analysis''
                                 (case analysis of None \<Rightarrow> JNone | Some a \<Rightarrow> JDict a)), s5))
                  else (Inr metadata, s4))))"


subsection \<open>Construction\<close>

text \<open>\<open>str.join\<close>.\<close>

fun join :: "string \<Rightarrow> string list \<Rightarrow> string" where
  "join sep [] = []"
| "join sep [w] = w"
| "join sep (w # ws) = w @ sep @ join sep ws"

text \<open>
  \<open>__init__\<close>, lines 61 to 88, with \<open>__generate_id_by_uri\<close> and
  \<open>__generate_name_by_uri\<close>. The function \<open>shorthash\<close> of the module \<open>util\<close> is not
  among the source files and is a parameter. The attributes start as the class declares
  them, \<open>None\<close>, and the store has been asked nothing.
\<close>

definition init :: "(string \<Rightarrow> string) \<Rightarrow> string option \<Rightarrow> DB option \<Rightarrow> error + poem" where
  "init shorthash uri0 database0 =
     (let s0 = \<lparr>uri = (if truthy_list uri0 then uri0 else None), database = database0,
                poem_id = None, name = None, poetry_lab_url = None, author_uris = None,
                authors = None, automatic_analysis = None, title = None, creation_year = None,
                executed = []\<rparr>
      in
        (case uri s0 of
           None \<Rightarrow> Inr s0
         | Some u \<Rightarrow>
             (case split_uri_in_author_poem_parts s0 of
                Inl e \<Rightarrow> Inl e
              | Inr author_poem \<Rightarrow>
                  Inr (s0\<lparr>poem_id := Some (shorthash u), name := Some (join ''_'' author_poem)\<rparr>))))"

text \<open>
  A method that leaves every attribute of the poem as it was: the only trace of it is in
  the history of the store.
\<close>

definition reads_only :: "'a action \<Rightarrow> bool" where
  "reads_only m = (\<forall>s r s'. m s = (r, s') \<longrightarrow> s' = s\<lparr>executed := executed s'\<rparr>)"


subsection \<open>Example poems and stores\<close>

text \<open>The URI of the docstring at line 110, and the poem \<open>__init__\<close> makes of it.\<close>

definition demo_uri :: string where
  "demo_uri = ''http://postdata.linhd.uned.es/resource/pw_juana-ines-de-la-cruz_sabras-querido-fabio''"

definition fresh_poem :: "DB \<Rightarrow> poem" where
  "fresh_poem db =
     \<lparr>uri = Some demo_uri, database = Some db, poem_id = Some ''629acd03'',
      name = Some ''juana-ines-de-la-cruz_sabras-querido-fabio'', poetry_lab_url = None,
      author_uris = None, authors = None, automatic_analysis = None, title = None,
      creation_year = None, executed = []\<rparr>"

text \<open>A store without a single row for any query.\<close>

definition no_rows_store :: DB where
  "no_rows_store = \<lparr>flat_results = (\<lambda>h q params. Inr []), row_results = (\<lambda>h q params. Inr [])\<rparr>"

text \<open>A store that answers every single-field query with two rows.\<close>

definition two_rows_store :: DB where
  "two_rows_store =
     \<lparr>flat_results = (\<lambda>h q params. Inr [PStr ''first'', PStr ''second'']),
      row_results = (\<lambda>h q params. Inr [])\<rparr>"

text \<open>A store with two titles for the poem and a single value for everything else.\<close>

definition two_titles_store :: DB where
  "two_titles_store =
     \<lparr>flat_results = (\<lambda>h q params.
        if q = PoemTitle then Inr [PStr ''first'', PStr ''second''] else Inr [PStr ''1691'']),
      row_results = (\<lambda>h q params. Inr [])\<rparr>"

text \<open>A row with the fields the pattern queries return.\<close>

definition pattern_row :: "pyval \<Rightarrow> pyval \<Rightarrow> pyval \<Rightarrow> binding" where
  "pattern_row k g m =
     [''StanzaNumber'' \<mapsto> k, ''grammaticalStressPattern'' \<mapsto> g, ''metricalPattern'' \<mapsto> m]"

text \<open>A store holding a poem of one stanza of two lines.\<close>

definition couplet_store :: DB where
  "couplet_store =
     \<lparr>flat_results = (\<lambda>h q params.
        if q = PoemAutomaticScansionUri then Inr [PStr ''http://postdata.linhd.uned.es/resource/sc_1'']
        else if q = PoemRhymeSchemesOfStanzas then Inr [PStr ''aa'']
        else if q = PoemCountStanzas then Inr [PInt 1]
        else Inr [PInt 2]),
      row_results = (\<lambda>h q params.
        if q = PoemCountSyllablesInStanzas \<or> q = PoemCountWordsInStanzas then
          Inr [stanza_row (PStr ''1'') (PStr ''11''), stanza_row (PStr ''1'') (PStr ''12'')]
        else
          Inr [pattern_row (PStr ''1'') (PStr ''-+'') (PStr ''+-''),
               pattern_row (PStr ''1'') (PStr ''--'') (PStr ''++'')])\<rparr>"

text \<open>The same store with a connection that breaks on the query for the number of lines.\<close>

definition failing_store :: DB where
  "failing_store =
     couplet_store\<lparr>flat_results := (\<lambda>h q params.
        if q = PoemCountLines then Inl (StoreError ''connection lost'')
        else flat_results couplet_store h q params)\<rparr>"

text \<open>An author component that reports the URI it was made from and asks the store nothing.\<close>

definition quiet_author :: author_contract where
  "quiet_author a h = (case a of PostdataAuthor u \<Rightarrow> (Inr (JDict [(''uri'', JVal u)]), h))"


text \<open>The analysis of the couplet, and the thirteen queries it takes.\<close>

definition couplet_analysis :: "(string \<times> json) list" where
  "couplet_analysis =
     [(''source'', JDict [(''uri'', JVal (PStr ''http://postdata.linhd.uned.es/resource/sc_1''))]),
      (''numOfStanzas'', JVal (PInt 1)),
      (''numOfLines'', JVal (PInt 2)),
      (''numOfWords'', JVal (PInt 2)),
      (''numOfLinesInStanzas'', JList [JVal (PInt 2)]),
      (''rhymeSchemesOfStanzas'', JList [JVal (PStr ''aa'')]),
      (''numOfMetricalSyllables'', JVal (PInt 2)),
      (''numOfGrammaticalSyllables'', JVal (PInt 2)),
      (''numOfMetricalSyllablesInStanzas'', JList [JList [JVal (PInt 11), JVal (PInt 12)]]),
      (''numOfGrammaticalSyllablesInStanzas'', JList [JList [JVal (PInt 11), JVal (PInt 12)]]),
      (''numOfWordsInStanzas'', JList [JList [JVal (PInt 11), JVal (PInt 12)]]),
      (''grammaticalStressPatternsInStanzas'', JList [JList [JVal (PStr ''-+''), JVal (PStr ''--'')]]),
      (''metricalPatternsInStanzas'', JList [JList [JVal (PStr ''+-''), JVal (PStr ''++'')]])]"

definition couplet_queries :: history where
  "couplet_queries =
     [(PoemAutomaticScansionUri, [demo_uri]),
      (PoemCountStanzas, [demo_uri]),
      (PoemCountLines, [demo_uri]),
      (PoemCountWords, [demo_uri]),
      (PoemCountLinesInStanzas, [demo_uri]),
      (PoemRhymeSchemesOfStanzas, [demo_uri]),
      (PoemCountSyllables, [demo_uri, ''pdp:hasMetricalSyllable'']),
      (PoemCountSyllables, [demo_uri, ''pdp:hasGrammaticalSyllable'']),
      (PoemCountSyllablesInStanzas, [demo_uri, ''pdp:hasMetricalSyllable'']),
      (PoemCountSyllablesInStanzas, [demo_uri, ''pdp:hasGrammaticalSyllable'']),
      (PoemCountWordsInStanzas, [demo_uri]),
      (PoemGrammaticalStressPatternsInStanzas, [demo_uri]),
      (PoemMetricalPatternsInStanzas, [demo_uri])]"


text \<open>The metadata of the example poem without authors and analysis, and its poetry lab URL.\<close>

definition demo_source :: string where
  "demo_source =
     ''http://poetry.linhd.uned.es:3000/en/author/juana-ines-de-la-cruz/poetic-work/sabras-querido-fabio''"

definition demo_metadata :: "(string \<times> json) list" where
  "demo_metadata =
     [(''id'', JVal (PStr ''629acd03'')),
      (''uri'', JVal (PStr demo_uri)),
      (''name'', JVal (PStr ''juana-ines-de-la-cruz_sabras-querido-fabio'')),
      (''source'', JVal (PStr demo_source)),
      (''sourceUri'', JVal (PStr ''POSTDATA Poetry Lab''))]"

section \<open>Properties of the grouping engine\<close>

lemmas eval_simps = group_feature_by_stanzas_def read_row_def getitem_def coerce_def stanza_row_def
  parse_int_def strip_def is_space_def parse_unsigned_def is_digit_def digit_val_def positive_stanza_def

text \<open>
  \<open>int\<close> on strings: padding by blanks, tabs and line feeds is stripped, a sign and
  single underscores are read, and a separator character (28 to 31) makes the string no
  numeral.
\<close>

lemma py_int_examples:
  "py_int (PStr '' 11 '') = Inr 11"
  "py_int (PStr [CHR 0x09, CHR ''-'', CHR ''1'', CHR ''_'', CHR ''0'', CHR 0x0A]) = Inr (- 10)"
  "py_int (PStr [CHR 0x1C, CHR ''5'']) = Inl ValueError"
  "py_int (PStr [CHR ''5'', CHR 0x1F]) = Inl ValueError"
  "py_int (PStr ''1__0'') = Inl ValueError"
  "py_int (PStr []) = Inl ValueError"
  by (simp_all add: parse_int_def strip_def is_space_def parse_unsigned_def is_digit_def
      digit_val_def)

text \<open>The loop over a concatenation runs the first part and continues with the second.\<close>

lemma group_loop_append:
  "group_loop sk vk dt (xs @ ys) st =
     (case group_loop sk vk dt xs st of Inl e \<Rightarrow> Inl e | Inr st' \<Rightarrow> group_loop sk vk dt ys st')"
proof (induction xs arbitrary: st)
  case Nil
  show ?case by simp
next
  case (Cons b xs)
  obtain g s c where st: "st = (g, s, c)" by (cases st)
  show ?case
    unfolding st by (simp add: Cons.IH split: sum.splits prod.splits)
qed

text \<open>The runs, joined, are the values in their input order: nothing is lost or moved.\<close>

lemma concat_stanza_runs: "concat (stanza_runs ps) = map snd ps"
proof (induction ps rule: stanza_runs.induct)
  case 1
  show ?case by simp
next
  case (2 k v ps)
  have "map snd (takeWhile (\<lambda>p. fst p = k) ps) @ map snd (dropWhile (\<lambda>p. fst p = k) ps) = map snd ps"
    by (simp flip: map_append)
  with 2 show ?case by simp
qed

lemma positive_stanza_not_sentinel: "positive_stanza k \<Longrightarrow> k \<noteq> PInt 0"
  by (auto simp: positive_stanza_def)

text \<open>
  The loop invariant: from a state whose marker is a positive stanza number, the loop
  extends the accumulator by the rows of that stanza and then emits one run per change.
\<close>

lemma group_loop_runs:
  assumes "map (read_row sk vk dt) rows = map Inr ps"
    and "\<forall>p\<in>set ps. positive_stanza (fst p)"
    and "positive_stanza cur"
  shows "\<exists>g s c. group_loop sk vk dt rows (grouped, stanza, cur) = Inr (g, s, c) \<and>
           g @ [s] = grouped @ (stanza @ map snd (takeWhile (\<lambda>p. fst p = cur) ps))
                       # stanza_runs (dropWhile (\<lambda>p. fst p = cur) ps)"
  using assms
proof (induction rows arbitrary: ps grouped stanza cur)
  case Nil
  then show ?case by simp
next
  case (Cons b rows)
  from Cons.prems(1) obtain k v ps' where ps: "ps = (k, v) # ps'"
    and b: "read_row sk vk dt b = Inr (k, v)"
    and rest: "map (read_row sk vk dt) rows = map Inr ps'"
    by (cases ps) auto
  from Cons.prems(2) ps have pos: "\<forall>p\<in>set ps'. positive_stanza (fst p)" and k: "positive_stanza k"
    by simp_all
  show ?case
  proof (cases "cur = k")
    case True
    from Cons.IH [OF rest pos Cons.prems(3), of grouped "stanza @ [v]"]
    show ?thesis using True b ps by simp
  next
    case False
    from Cons.prems(3) obtain n where n: "py_int cur = Inr n" "0 < n"
      by (auto simp: positive_stanza_def split: sum.splits)
    from Cons.IH [OF rest pos k, of "grouped @ [stanza]" "[v]"]
    show ?thesis using False b ps n by simp
  qed
qed

text \<open>
  C1 (as amended). For every sequence of rows that carry the stanza-number field and a
  value the datatype flag can coerce, and whose stanza numbers are all positive (so none
  is the sentinel \<open>0\<close>), \<open>__group_feature_by_stanzas\<close> returns the values cut into
  stanzas wherever the stanza number changes: the result is \<open>stanza_runs\<close> of the
  (stanza number, value) pairs, in line order within a stanza and stanza order across the
  poem, and for no rows at all it is \<open>[[]]\<close>. Here \<open>ps\<close> is the list of pairs the rows
  read as.
\<close>

theorem group_feature_by_stanzas_partitions:
  assumes "map (read_row sk vk dt) rows = map Inr ps"
    and "\<forall>p\<in>set ps. positive_stanza (fst p)"
  shows "group_feature_by_stanzas rows sk vk dt = Inr (if ps = [] then [[]] else stanza_runs ps) \<and>
         concat (stanza_runs ps) = map snd ps"
proof (cases rows)
  case Nil
  with assms(1) show ?thesis by (simp add: group_feature_by_stanzas_def)
next
  case (Cons b rows')
  with assms(1) obtain k v ps' where ps: "ps = (k, v) # ps'"
    and b: "read_row sk vk dt b = Inr (k, v)"
    and rest: "map (read_row sk vk dt) rows' = map Inr ps'"
    by (cases ps) auto
  from assms(2) ps have pos: "\<forall>p\<in>set ps'. positive_stanza (fst p)" and k: "positive_stanza k"
    by simp_all
  from k have k0: "PInt 0 \<noteq> k" using positive_stanza_not_sentinel by auto
  from group_loop_runs [OF rest pos k, of "[]" "[v]"]
  obtain g s c where "group_loop sk vk dt rows' ([], [v], k) = Inr (g, s, c)"
    and "g @ [s] = stanza_runs ps" by (auto simp: ps)
  then have "group_feature_by_stanzas rows sk vk dt = Inr (stanza_runs ps)"
    using Cons b k0 by (simp add: group_feature_by_stanzas_def)
  then show ?thesis using ps concat_stanza_runs [of ps] by simp
qed

text \<open>
  The literal case: \<open>[(1,"a"),(1,"b"),(2,"c"),(2,"d"),(2,"e")]\<close> gives
  \<open>[["a","b"],["c","d","e"]]\<close>.
\<close>

theorem group_feature_by_stanzas_partitions_witness:
  "group_feature_by_stanzas
     [stanza_row (PInt 1) (PStr ''a''), stanza_row (PInt 1) (PStr ''b''),
      stanza_row (PInt 2) (PStr ''c''), stanza_row (PInt 2) (PStr ''d''),
      stanza_row (PInt 2) (PStr ''e'')] ''StanzaNo'' ''count'' ''str'' =
   Inr [[PStr ''a'', PStr ''b''], [PStr ''c'', PStr ''d'', PStr ''e'']]"
  using group_feature_by_stanzas_partitions
    [of "''StanzaNo''" "''count''" "''str''"
        "[stanza_row (PInt 1) (PStr ''a''), stanza_row (PInt 1) (PStr ''b''),
          stanza_row (PInt 2) (PStr ''c''), stanza_row (PInt 2) (PStr ''d''),
          stanza_row (PInt 2) (PStr ''e'')]"
        "[(PInt 1, PStr ''a''), (PInt 1, PStr ''b''), (PInt 2, PStr ''c''),
          (PInt 2, PStr ''d''), (PInt 2, PStr ''e'')]"]
  by (simp add: read_row_def getitem_def coerce_def stanza_row_def positive_stanza_def)

text \<open>
  Without the restriction to positive stanza numbers the statement fails: on
  \<open>[(0,"a"),(1,"b")]\<close> the result is \<open>[["b"]]\<close>, while cutting at the change of the
  stanza number gives \<open>[["a"],["b"]]\<close>.
\<close>

theorem sentinel_stanza_not_partitioned:
  "group_feature_by_stanzas [stanza_row (PInt 0) (PStr ''a''), stanza_row (PInt 1) (PStr ''b'')]
     ''StanzaNo'' ''count'' ''str'' = Inr [[PStr ''b'']] \<and>
   stanza_runs [(PInt 0, PStr ''a''), (PInt 1, PStr ''b'')] = [[PStr ''a''], [PStr ''b'']]"
  by (simp add: group_feature_by_stanzas_def read_row_def getitem_def coerce_def stanza_row_def)

text \<open>
  C2. The last accumulator is appended after the loop whatever the input was, so a
  result is never the empty list, and for the empty input it is \<open>[[]]\<close>: one stanza,
  which is empty.
\<close>

theorem empty_input_one_empty_stanza:
  "group_feature_by_stanzas [] sk vk dt = Inr [[]] \<and>
   (\<forall>rows out. group_feature_by_stanzas rows sk vk dt = Inr out \<longrightarrow> out \<noteq> [])"
  by (auto simp: group_feature_by_stanzas_def split: sum.splits)

theorem empty_input_one_empty_stanza_witness:
  "group_feature_by_stanzas [] ''StanzaNo'' ''count'' ''int'' = Inr [[]]"
  using empty_input_one_empty_stanza [of "''StanzaNo''" "''count''" "''int''"] by simp

text \<open>Leading rows of one stanza number leave the result list empty and at most move the marker.\<close>

lemma group_loop_zeros:
  assumes "\<forall>b\<in>set zeros. \<exists>x. read_row sk vk dt b = Inr (z, x)"
  shows "\<exists>s. group_loop sk vk dt zeros (g, s0, z) = Inr (g, s, z)"
  using assms by (induction zeros arbitrary: s0) auto

lemma group_loop_leading:
  assumes "\<forall>b\<in>set zeros. \<exists>x. read_row sk vk dt b = Inr (z, x)"
    and "py_int z = Inr n" and "n \<le> 0"
  shows "\<exists>s c. group_loop sk vk dt zeros ([], [], PInt 0) = Inr ([], s, c) \<and>
            (c = z \<or> zeros = [] \<and> s = [] \<and> c = PInt 0)"
proof (cases zeros)
  case Nil
  then show ?thesis by simp
next
  case (Cons b zs)
  with assms(1) obtain x where b: "read_row sk vk dt b = Inr (z, x)"
    and zs: "\<forall>b\<in>set zs. \<exists>x. read_row sk vk dt b = Inr (z, x)" by auto
  from group_loop_zeros [OF zs]
  obtain s1 where s1: "group_loop sk vk dt zs ([], [] @ [x], z) = Inr ([], s1, z)" by blast
  from group_loop_zeros [OF zs]
  obtain s2 where s2: "group_loop sk vk dt zs ([], [x], z) = Inr ([], s2, z)" by blast
  show ?thesis using Cons b s1 s2 by (cases "PInt 0 = z") auto
qed

text \<open>
  C9. When the leading rows all carry a stanza number \<open>z\<close> with \<open>int(z) \<le> 0\<close> (the
  sentinel \<open>0\<close> in particular) and the next row carries another stanza number, the
  result is the result for the input without those leading rows: the guard
  \<open>int(current_stanza) > 0\<close> discards their accumulator instead of emitting it.
\<close>

theorem leading_sentinel_rows_dropped:
  assumes "\<forall>b\<in>set zeros. \<exists>x. read_row sk vk dt b = Inr (z, x)"
    and "py_int z = Inr n" and "n \<le> 0"
    and "nxt sk \<noteq> Some z"
  shows "group_feature_by_stanzas (zeros @ nxt # rest) sk vk dt =
         group_feature_by_stanzas (nxt # rest) sk vk dt"
proof -
  from group_loop_leading [OF assms(1-3)]
  obtain s c where run: "group_loop sk vk dt zeros ([], [], PInt 0) = Inr ([], s, c)"
    and c: "c = z \<or> zeros = [] \<and> s = [] \<and> c = PInt 0" by (elim exE conjE)
  have step: "group_loop sk vk dt (nxt # rest) ([], s, c) = group_loop sk vk dt (nxt # rest) ([], [], PInt 0)"
  proof (cases "read_row sk vk dt nxt")
    case (Inl e)
    then show ?thesis by simp
  next
    case (Inr kv)
    obtain k v where kv: "kv = (k, v)" by (cases kv)
    from Inr kv assms(4) have kz: "k \<noteq> z"
      by (auto simp: read_row_def getitem_def split: option.splits sum.splits)
    from c show ?thesis
    proof
      assume cz: "c = z"
      have l: "group_loop sk vk dt (nxt # rest) ([], s, z) = group_loop sk vk dt rest ([], [v], k)"
        using Inr kv kz assms(2,3) by simp
      have r: "group_loop sk vk dt (nxt # rest) ([], [], PInt 0) = group_loop sk vk dt rest ([], [v], k)"
        using Inr kv by (cases "PInt 0 = k") simp_all
      show ?thesis unfolding cz l r ..
    next
      assume "zeros = [] \<and> s = [] \<and> c = PInt 0"
      then show ?thesis by simp
    qed
  qed
  have "group_loop sk vk dt (zeros @ nxt # rest) ([], [], PInt 0) = group_loop sk vk dt (nxt # rest) ([], s, c)"
    unfolding group_loop_append run by simp
  then show ?thesis
    unfolding group_feature_by_stanzas_def step by simp
qed

theorem leading_sentinel_rows_dropped_witness:
  "group_feature_by_stanzas
     ([stanza_row (PInt 0) (PStr ''7''), stanza_row (PInt 0) (PStr ''8'')]
        @ stanza_row (PInt 1) (PStr ''9'') # []) ''StanzaNo'' ''count'' ''int'' =
   group_feature_by_stanzas (stanza_row (PInt 1) (PStr ''9'') # []) ''StanzaNo'' ''count'' ''int'' \<and>
   group_feature_by_stanzas (stanza_row (PInt 1) (PStr ''9'') # []) ''StanzaNo'' ''count'' ''int'' =
   Inr [[PInt 9]]"
proof -
  have zeros: "\<forall>b\<in>set [stanza_row (PInt 0) (PStr ''7''), stanza_row (PInt 0) (PStr ''8'')].
      \<exists>x. read_row ''StanzaNo'' ''count'' ''int'' b = Inr (PInt 0, x)"
    by (simp add: eval_simps)
  have nxt: "stanza_row (PInt 1) (PStr ''9'') ''StanzaNo'' \<noteq> Some (PInt 0)"
    by (simp add: stanza_row_def)
  have out: "group_feature_by_stanzas (stanza_row (PInt 1) (PStr ''9'') # []) ''StanzaNo'' ''count'' ''int'' =
      Inr [[PInt 9]]"
    by (simp add: eval_simps)
  have z: "py_int (PInt 0) = Inr 0" by simp
  have le: "(0::int) \<le> 0" by simp
  from leading_sentinel_rows_dropped
    [where zeros = "[stanza_row (PInt 0) (PStr ''7''), stanza_row (PInt 0) (PStr ''8'')]"
       and sk = "''StanzaNo''" and vk = "''count''" and dt = "''int''" and z = "PInt 0" and n = 0
       and nxt = "stanza_row (PInt 1) (PStr ''9'')" and rest = "[]", OF zeros z le nxt] out
  show ?thesis by simp
qed

text \<open>What a row reads as under the integer flag and under a flag that is neither.\<close>

lemma read_row_int:
  "read_row sk vk ''int'' b = Inr (k, x) \<Longrightarrow> \<exists>v n. b vk = Some v \<and> py_int v = Inr n \<and> x = PInt n"
  by (auto simp: read_row_def getitem_def coerce_def split: option.splits sum.splits)

lemma read_row_other:
  "dt \<notin> {''int'', ''Integer'', ''str'', ''String''} \<Longrightarrow> read_row sk vk dt b = Inr (k, x) \<Longrightarrow> b vk = Some x"
  by (auto simp: read_row_def getitem_def coerce_def split: option.splits sum.splits)

text \<open>Every value of the result is the coerced value of some row.\<close>

lemma group_loop_values:
  "group_loop sk vk dt rows (g, s, c) = Inr (g', s', c') \<Longrightarrow> x \<in> set (concat g') \<union> set s' \<Longrightarrow>
     x \<in> set (concat g) \<union> set s \<or> (\<exists>b\<in>set rows. \<exists>k. read_row sk vk dt b = Inr (k, x))"
proof (induction rows arbitrary: g s c)
  case Nil
  then show ?case by simp
next
  case (Cons b rows)
  from Cons.prems(1) obtain k v where b: "read_row sk vk dt b = Inr (k, v)"
    by (cases "read_row sk vk dt b") auto
  show ?case
  proof (cases "c = k")
    case True
    with Cons.prems(1) b have "group_loop sk vk dt rows (g, s @ [v], c) = Inr (g', s', c')" by simp
    from Cons.IH [OF this Cons.prems(2)] b show ?thesis by auto
  next
    case False
    with Cons.prems(1) b obtain n where n: "py_int c = Inr n"
      by (cases "py_int c") auto
    with False Cons.prems(1) b
    have "group_loop sk vk dt rows (if n > 0 then g @ [s] else g, [v], k) = Inr (g', s', c')" by simp
    from Cons.IH [OF this Cons.prems(2)] b show ?thesis by (auto split: if_splits)
  qed
qed

lemma group_feature_values:
  assumes "group_feature_by_stanzas rows sk vk dt = Inr out" and "x \<in> set (concat out)"
  shows "\<exists>b\<in>set rows. \<exists>k. read_row sk vk dt b = Inr (k, x)"
proof -
  from assms(1) obtain g s c where run: "group_loop sk vk dt rows ([], [], PInt 0) = Inr (g, s, c)"
    and out: "out = g @ [s]"
    by (auto simp: group_feature_by_stanzas_def split: sum.splits)
  from assms(2) out have "x \<in> set (concat g) \<union> set s" by auto
  from group_loop_values [OF run this] show ?thesis by simp
qed

lemma group_single_row:
  "group_feature_by_stanzas [b] sk vk dt =
     (case read_row sk vk dt b of Inl e \<Rightarrow> Inl e | Inr (k, v) \<Rightarrow> Inr [[v]])"
  by (simp add: group_feature_by_stanzas_def split: sum.splits)

text \<open>
  C8. With the flag \<open>int\<close> the value of a row is coerced by \<open>int(...)\<close>; with a flag
  that is none of \<open>int\<close>, \<open>Integer\<close>, \<open>str\<close>, \<open>String\<close> it passes through as it
  is. For a single row holding \<open>v\<close> the result is \<open>[[int(v)]]\<close> (or the error of
  \<open>int(v)\<close>) and \<open>[[v]]\<close>; for any rows, every value of the result is \<open>int\<close> of
  a row's value, respectively a row's value itself.
\<close>

theorem value_coercion_by_flag:
  assumes "dt \<notin> {''int'', ''Integer'', ''str'', ''String''}"
    and "b sk = Some k" and "b vk = Some v"
  shows "group_feature_by_stanzas [b] sk vk ''int'' =
           (case py_int v of Inl e \<Rightarrow> Inl e | Inr n \<Rightarrow> Inr [[PInt n]]) \<and>
         group_feature_by_stanzas [b] sk vk dt = Inr [[v]] \<and>
         (\<forall>out x. group_feature_by_stanzas rows sk vk ''int'' = Inr out \<longrightarrow> x \<in> set (concat out) \<longrightarrow>
            (\<exists>r\<in>set rows. \<exists>w n. r vk = Some w \<and> py_int w = Inr n \<and> x = PInt n)) \<and>
         (\<forall>out x. group_feature_by_stanzas rows sk vk dt = Inr out \<longrightarrow> x \<in> set (concat out) \<longrightarrow>
            (\<exists>r\<in>set rows. r vk = Some x))"
proof (intro conjI allI impI)
  show "group_feature_by_stanzas [b] sk vk ''int'' =
           (case py_int v of Inl e \<Rightarrow> Inl e | Inr n \<Rightarrow> Inr [[PInt n]])"
    using assms(2,3) by (simp add: group_single_row read_row_def getitem_def coerce_def split: sum.splits)
  show "group_feature_by_stanzas [b] sk vk dt = Inr [[v]]"
    using assms by (simp add: group_single_row read_row_def getitem_def coerce_def)
next
  fix out x
  assume "group_feature_by_stanzas rows sk vk ''int'' = Inr out" and "x \<in> set (concat out)"
  from group_feature_values [OF this] read_row_int
  show "\<exists>r\<in>set rows. \<exists>w n. r vk = Some w \<and> py_int w = Inr n \<and> x = PInt n" by meson
next
  fix out x
  assume "group_feature_by_stanzas rows sk vk dt = Inr out" and "x \<in> set (concat out)"
  from group_feature_values [OF this] read_row_other [OF assms(1)]
  show "\<exists>r\<in>set rows. r vk = Some x" by meson
qed

text \<open>The string \<open>"11"\<close> comes out as the integer \<open>11\<close>, and under another flag as \<open>"11"\<close>.\<close>

theorem value_coercion_by_flag_witness:
  "group_feature_by_stanzas [stanza_row (PStr ''1'') (PStr ''11'')] ''StanzaNo'' ''count'' ''int'' =
     Inr [[PInt 11]] \<and>
   group_feature_by_stanzas [stanza_row (PStr ''1'') (PStr ''11'')] ''StanzaNo'' ''count'' ''float'' =
     Inr [[PStr ''11'']]"
proof -
  have flag: "''float'' \<notin> {''int'', ''Integer'', ''str'', ''String''}" by simp
  have k: "stanza_row (PStr ''1'') (PStr ''11'') ''StanzaNo'' = Some (PStr ''1'')"
    and v: "stanza_row (PStr ''1'') (PStr ''11'') ''count'' = Some (PStr ''11'')"
    by (simp_all add: stanza_row_def)
  have eleven: "py_int (PStr ''11'') = Inr 11"
    by (simp add: parse_int_def strip_def is_space_def parse_unsigned_def is_digit_def digit_val_def)
  from value_coercion_by_flag [OF flag k v, of "[]"] eleven show ?thesis by simp
qed

section \<open>Properties of the accessors\<close>

subsection \<open>Basic metadata\<close>

lemma uri_param_Inr: "uri_param s = Inr u \<Longrightarrow> uri s = Some u \<and> u \<noteq> []"
  by (auto simp: uri_param_def truthy_list_def split: option.splits if_splits)

text \<open>
  \<open>get_title\<close> accepts exactly one row: its \<open>else\<close> branch (line 144) takes every
  other length, zero included.
\<close>

lemma get_title_not_one_row:
  assumes "\<not> truthy_opt (title s)" and "database s = Some db" and "uri_param s = Inr u"
    and "flat_results db (executed s) PoemTitle [u] = Inr title_list"
    and "length title_list \<noteq> 1"
  shows "get_title s =
           (Inl (Exception ''Poem has multiple titles. Not implemented.''),
            s\<lparr>executed := executed s @ [(PoemTitle, [u])]\<rparr>)"
  using assms by (simp add: get_title_def execute_flat_def)

text \<open>
  \<open>get_creation_year\<close> and \<open>get_author_uris\<close> test for zero rows first (lines 174 and
  242) and resolve to \<open>None\<close>.
\<close>

lemma get_creation_year_zero_rows:
  assumes "\<not> truthy_opt (creation_year s)" and "database s = Some db" and "uri_param s = Inr u"
    and "flat_results db (executed s) PoemCreationYear [u] = Inr []"
  shows "get_creation_year s =
           (Inr None, s\<lparr>executed := executed s @ [(PoemCreationYear, [u])], creation_year := None\<rparr>)"
  using assms by (simp add: get_creation_year_def execute_flat_def)

lemma get_author_uris_zero_rows:
  assumes "\<not> truthy_list (author_uris s)" and "database s = Some db" and "uri_param s = Inr u"
    and "flat_results db (executed s) PoemAuthorUris [u] = Inr []"
  shows "get_author_uris s =
           (Inr None, s\<lparr>executed := executed s @ [(PoemAuthorUris, [u])], author_uris := None\<rparr>)"
  using assms by (simp add: get_author_uris_def execute_flat_def)

text \<open>
  C4. Each accessor on its own: when the title is not cached, the connection and the
  URI are set and the title query yields more than one row, \<open>get_title\<close> raises the
  exception for multiple titles, whatever the other queries yield; and likewise
  \<open>get_creation_year\<close> for the creation year, on any poem \<open>t\<close>. No row is picked: the
  attribute stays as it was.
\<close>

theorem multiple_rows_raise:
  "(\<not> truthy_opt (title s) \<longrightarrow> database s = Some db \<longrightarrow> uri_param s = Inr u \<longrightarrow>
      flat_results db (executed s) PoemTitle [u] = Inr titles \<longrightarrow> 1 < length titles \<longrightarrow>
      get_title s =
        (Inl (Exception ''Poem has multiple titles. Not implemented.''),
         s\<lparr>executed := executed s @ [(PoemTitle, [u])]\<rparr>)) \<and>
   (\<not> truthy_opt (creation_year t) \<longrightarrow> database t = Some db' \<longrightarrow> uri_param t = Inr u' \<longrightarrow>
      flat_results db' (executed t) PoemCreationYear [u'] = Inr years \<longrightarrow> 1 < length years \<longrightarrow>
      get_creation_year t =
        (Inl (Exception ''Multiple values for creation year. Not implemented.''),
         t\<lparr>executed := executed t @ [(PoemCreationYear, [u'])]\<rparr>))"
proof (intro conjI impI)
  assume "\<not> truthy_opt (title s)" and "database s = Some db" and "uri_param s = Inr u"
    and "flat_results db (executed s) PoemTitle [u] = Inr titles" and "1 < length titles"
  then show "get_title s =
        (Inl (Exception ''Poem has multiple titles. Not implemented.''),
         s\<lparr>executed := executed s @ [(PoemTitle, [u])]\<rparr>)"
    by (simp add: get_title_not_one_row)
next
  assume "\<not> truthy_opt (creation_year t)" and "database t = Some db'" and "uri_param t = Inr u'"
    and "flat_results db' (executed t) PoemCreationYear [u'] = Inr years" and "1 < length years"
  then show "get_creation_year t =
        (Inl (Exception ''Multiple values for creation year. Not implemented.''),
         t\<lparr>executed := executed t @ [(PoemCreationYear, [u'])]\<rparr>)"
    by (auto simp: get_creation_year_def execute_flat_def)
qed

text \<open>
  C7. When the connection and the URI are set and the query for the automatic scansion
  yields at least one URI, \<open>get_automatic_scansion_uri\<close> returns the first one and does
  not raise, however many follow.
\<close>

theorem first_scansion_uri_taken:
  assumes "database s = Some db" and "uri_param s = Inr u"
    and "flat_results db (executed s) PoemAutomaticScansionUri [u] = Inr (x # xs)"
  shows "get_automatic_scansion_uri s =
           (Inr x, s\<lparr>executed := executed s @ [(PoemAutomaticScansionUri, [u])]\<rparr>)"
  using assms
  by (simp add: get_automatic_scansion_uri_def first_of_def and_then_def execute_sparql_query_def
      execute_flat_def index_def)


subsection \<open>Methods that only read\<close>

lemma reads_onlyI: "(\<And>s r s'. m s = (r, s') \<Longrightarrow> s' = s\<lparr>executed := executed s'\<rparr>) \<Longrightarrow> reads_only m"
  by (simp add: reads_only_def)

lemma reads_onlyD: "reads_only m \<Longrightarrow> m s = (r, s') \<Longrightarrow> s' = s\<lparr>executed := executed s'\<rparr>"
  by (simp add: reads_only_def)

lemma reads_only_execute_flat: "reads_only (execute_flat db q params)"
  by (simp add: reads_only_def execute_flat_def)

lemma reads_only_execute_rows: "reads_only (execute_rows db q params)"
  by (simp add: reads_only_def execute_rows_def)

lemma reads_only_pure: "reads_only (\<lambda>s. (r, s))"
  by (simp add: reads_only_def)

lemma reads_only_and_then:
  assumes "reads_only m" and "\<And>v. reads_only (f v)"
  shows "reads_only (and_then m f)"
proof (rule reads_onlyI)
  fix s r s'
  assume run: "and_then m f s = (r, s')"
  obtain r1 s1 where m: "m s = (r1, s1)" by (cases "m s")
  from reads_onlyD [OF assms(1) m] have s1: "s1 = s\<lparr>executed := executed s1\<rparr>" .
  show "s' = s\<lparr>executed := executed s'\<rparr>"
  proof (cases r1)
    case (Inl e)
    with run m have "s' = s1" by (simp add: and_then_def)
    with s1 show ?thesis by simp
  next
    case (Inr v)
    with run m have "f v s1 = (r, s')" by (simp add: and_then_def)
    from reads_onlyD [OF assms(2) this] have "s' = s1\<lparr>executed := executed s'\<rparr>" .
    with s1 show ?thesis by (metis poem.update_convs(11) poem.surjective poem.select_convs(11))
  qed
qed


lemma reads_only_map_action: "reads_only m \<Longrightarrow> reads_only (map_action f m)"
  unfolding map_action_def by (rule reads_only_and_then) (simp_all add: reads_only_pure)

lemma reads_only_first_of: "reads_only m \<Longrightarrow> reads_only (first_of m)"
  unfolding first_of_def by (rule reads_only_and_then) (simp_all add: reads_only_pure)

lemma reads_only_execute_sparql_query: "reads_only (execute_sparql_query q)"
proof (rule reads_onlyI)
  fix s r s'
  assume "execute_sparql_query q s = (r, s')"
  then show "s' = s\<lparr>executed := executed s'\<rparr>"
    by (auto simp: execute_sparql_query_def execute_flat_def split: option.splits sum.splits)
qed

lemma reads_only_get_number_of_syllables: "reads_only (get_number_of_syllables t)"
proof (rule reads_onlyI)
  fix s r s'
  assume run: "get_number_of_syllables t s = (r, s')"
  show "s' = s\<lparr>executed := executed s'\<rparr>"
  proof (cases "\<exists>p db u. syllable_type_prop t = Inr p \<and> database s = Some db \<and> uri_param s = Inr u")
    case True
    then obtain p db u where "syllable_type_prop t = Inr p" "database s = Some db"
      "uri_param s = Inr u" by auto
    with run have "first_of (execute_flat db PoemCountSyllables [u, p]) s = (r, s')"
      by (simp add: get_number_of_syllables_def)
    from reads_onlyD [OF reads_only_first_of [OF reads_only_execute_flat] this] show ?thesis .
  next
    case False
    with run have "s' = s"
      by (auto simp: get_number_of_syllables_def split: option.splits sum.splits)
    then show ?thesis by simp
  qed
qed

lemma reads_only_grouped_query: "reads_only (grouped_query q extra sk vk dt)"
proof (rule reads_onlyI)
  fix s r s'
  assume run: "grouped_query q extra sk vk dt s = (r, s')"
  show "s' = s\<lparr>executed := executed s'\<rparr>"
  proof (cases "\<exists>db u. database s = Some db \<and> uri_param s = Inr u")
    case True
    then obtain db u where "database s = Some db" "uri_param s = Inr u" by auto
    with run have "and_then (execute_rows db q (u # extra))
        (\<lambda>rows s'. (group_feature_by_stanzas rows sk vk dt, s')) s = (r, s')"
      by (simp add: grouped_query_def)
    moreover have "reads_only (and_then (execute_rows db q (u # extra))
        (\<lambda>rows s'. (group_feature_by_stanzas rows sk vk dt, s')))"
      by (rule reads_only_and_then) (simp_all add: reads_only_execute_rows reads_only_pure)
    ultimately show ?thesis by (rule reads_onlyD [rotated])
  next
    case False
    with run have "s' = s"
      by (auto simp: grouped_query_def split: option.splits sum.splits)
    then show ?thesis by simp
  qed
qed

lemma reads_only_get_number_of_syllables_in_stanzas:
  "reads_only (get_number_of_syllables_in_stanzas t)"
proof (rule reads_onlyI)
  fix s r s'
  assume run: "get_number_of_syllables_in_stanzas t s = (r, s')"
  show "s' = s\<lparr>executed := executed s'\<rparr>"
  proof (cases "syllable_type_prop t")
    case (Inl e)
    with run have "s' = s" by (simp add: get_number_of_syllables_in_stanzas_def)
    then show ?thesis by simp
  next
    case (Inr p)
    with run have "grouped_query PoemCountSyllablesInStanzas [p] ''StanzaNo'' ''count'' ''int'' s
        = (r, s')"
      by (simp add: get_number_of_syllables_in_stanzas_def)
    from reads_onlyD [OF reads_only_grouped_query this] show ?thesis .
  qed
qed

text \<open>Every step of the analysis only reads.\<close>

lemma reads_only_analysis_steps: "\<forall>(k, m)\<in>set analysis_steps. reads_only m"
  by (simp add: analysis_steps_def reads_only_map_action reads_only_first_of
      reads_only_execute_sparql_query reads_only_get_number_of_syllables
      reads_only_get_number_of_syllables_in_stanzas reads_only_grouped_query
      get_automatic_scansion_uri_def get_number_of_stanzas_def get_number_of_lines_def
      get_number_of_words_def get_number_of_lines_in_stanzas_def get_rhyme_schemes_of_stanzas_def
      get_number_of_words_in_stanzas_def get_grammatical_stress_patterns_in_stanzas_def
      get_metrical_patterns_in_stanzas_def)

subsection \<open>Evaluating the steps\<close>

lemma collect_append:
  "collect (pre @ rest) s =
     (case collect pre s of
        (Inl e, s') \<Rightarrow> (Inl e, s')
      | (Inr d, s') \<Rightarrow>
          (case collect rest s' of
             (Inl e, s'') \<Rightarrow> (Inl e, s'')
           | (Inr d', s'') \<Rightarrow> (Inr (d @ d'), s'')))"
proof (induction pre arbitrary: s)
  case Nil
  show ?case by (simp split: prod.splits sum.splits)
next
  case (Cons km pre)
  obtain k m where km: "km = (k, m)" by (cases km)
  show ?case unfolding km by (simp add: Cons.IH split: prod.splits sum.splits)
qed

lemma collect_keys: "collect steps s = (Inr d, s') \<Longrightarrow> map fst d = map fst steps"
proof (induction steps arbitrary: s d s')
  case Nil
  then show ?case by simp
next
  case (Cons km steps)
  obtain k m where km: "km = (k, m)" by (cases km)
  from Cons.prems obtain v s1 d1 where "m s = (Inr v, s1)"
    and rest: "collect steps s1 = (Inr d1, s')" and d: "d = (k, v) # d1"
    unfolding km by (auto split: prod.splits sum.splits)
  from Cons.IH [OF rest] d km show ?case by simp
qed

lemma collect_reads_only:
  assumes "\<forall>(k, m)\<in>set steps. reads_only m"
  shows "reads_only (collect steps)"
  using assms
proof (induction steps)
  case Nil
  show ?case by (simp add: reads_only_def)
next
  case (Cons km steps)
  obtain k m where km: "km = (k, m)" by (cases km)
  from Cons.prems km have m: "reads_only m" and "\<forall>(k, m)\<in>set steps. reads_only m" by simp_all
  with Cons.IH have rest: "reads_only (collect steps)" by simp
  have "collect (km # steps) =
      and_then m (\<lambda>v. and_then (collect steps) (\<lambda>d s. (Inr ((k, v) # d), s)))"
    unfolding km by (rule ext) (simp add: and_then_def split: prod.splits sum.splits)
  moreover have "reads_only (and_then m (\<lambda>v. and_then (collect steps) (\<lambda>d s. (Inr ((k, v) # d), s))))"
    by (intro reads_only_and_then m rest) (simp add: reads_only_pure)
  ultimately show ?case by simp
qed

text \<open>
  C5. If \<open>get_analysis\<close> returns a record and leaves the poem in the state \<open>s'\<close>, a
  second call in \<open>s'\<close> returns the same record and leaves \<open>s'\<close> as it is: the history
  of the store does not grow, so no query is executed.
\<close>

theorem get_analysis_cached:
  assumes "get_analysis s = (Inr a, s')"
  shows "get_analysis s' = (Inr a, s')"
proof (cases "truthy_list (automatic_analysis s)")
  case True
  with assms have "s' = s \<and> a = automatic_analysis s" by (auto simp: get_analysis_def)
  with True show ?thesis by (simp add: get_analysis_def)
next
  case False
  with assms obtain analysis s1 where run: "collect analysis_steps s = (Inr analysis, s1)"
    and a: "a = Some analysis" and s': "s' = s1\<lparr>automatic_analysis := Some analysis\<rparr>"
    by (auto simp: get_analysis_def split: prod.splits sum.splits)
  from collect_keys [OF run] have "analysis \<noteq> []" by (auto simp: analysis_steps_def)
  with a s' show ?thesis by (simp add: get_analysis_def truthy_list_def)
qed

text \<open>
  C6. When no analysis is cached and a step raises after the steps before it have
  succeeded, \<open>get_analysis\<close> raises that exception, and the poem is as before the call
  in every attribute, \<open>automatic_analysis\<close> in particular: only the history of the store
  has grown.
\<close>

theorem failed_step_aborts_analysis:
  assumes "\<not> truthy_list (automatic_analysis s)"
    and "analysis_steps = pre @ (k, step) # post"
    and "collect pre s = (Inr d, s1)"
    and "step s1 = (Inl e, s2)"
  shows "get_analysis s = (Inl e, s2) \<and> automatic_analysis s2 = automatic_analysis s \<and>
         s2 = s\<lparr>executed := executed s2\<rparr>"
proof -
  have "collect ((k, step) # post) s1 = (Inl e, s2)" using assms(4) by simp
  with assms(3) have run: "collect analysis_steps s = (Inl e, s2)"
    unfolding assms(2) collect_append by simp
  with assms(1) have result: "get_analysis s = (Inl e, s2)" by (simp add: get_analysis_def)
  from reads_onlyD [OF collect_reads_only [OF reads_only_analysis_steps] run]
  have frame: "s2 = s\<lparr>executed := executed s2\<rparr>" .
  then have "automatic_analysis s2 = automatic_analysis (s\<lparr>executed := executed s2\<rparr>)" by simp
  then have "automatic_analysis s2 = automatic_analysis s" by simp
  with result frame show ?thesis by simp
qed


subsection \<open>The examples\<close>

text \<open>The example poem is the poem that \<open>__init__\<close> constructs from its URI.\<close>

lemma fresh_poem_fields [simp]:
  "uri (fresh_poem db) = Some demo_uri" "database (fresh_poem db) = Some db"
  "poem_id (fresh_poem db) = Some ''629acd03''"
  "name (fresh_poem db) = Some ''juana-ines-de-la-cruz_sabras-querido-fabio''"
  "poetry_lab_url (fresh_poem db) = None" "author_uris (fresh_poem db) = None"
  "authors (fresh_poem db) = None" "automatic_analysis (fresh_poem db) = None"
  "title (fresh_poem db) = None" "creation_year (fresh_poem db) = None"
  "executed (fresh_poem db) = []"
  by (simp_all add: fresh_poem_def)

lemma uri_param_fresh_poem [simp]: "uri_param (fresh_poem db) = Inr demo_uri"
  by (simp add: uri_param_def truthy_list_def demo_uri_def)

lemma uri_param_executed [simp]: "uri_param (s\<lparr>executed := h\<rparr>) = uri_param s"
  by (simp add: uri_param_def)

lemma fresh_poem_is_constructed:
  "init (\<lambda>u. ''629acd03'') (Some demo_uri) (Some db) = Inr (fresh_poem db)"
  by (simp add: init_def fresh_poem_def demo_uri_def truthy_list_def split_uri_in_author_poem_parts_def
      index_def Let_def)

text \<open>
  C3. A single-valued accessor should resolve to an absent value when its query yields
  no row. \<open>get_creation_year\<close> and \<open>get_author_uris\<close> do (lemmas
  \<open>get_creation_year_zero_rows\<close> and \<open>get_author_uris_zero_rows\<close>); \<open>get_title\<close>
  does not: on a poem whose title query yields no row it raises the exception for
  multiple titles.
\<close>

theorem get_title_zero_rows_raises:
  "get_title (fresh_poem no_rows_store) =
     (Inl (Exception ''Poem has multiple titles. Not implemented.''),
      (fresh_poem no_rows_store)\<lparr>executed := [(PoemTitle, [demo_uri])]\<rparr>)"
proof -
  have "get_title (fresh_poem no_rows_store) =
     (Inl (Exception ''Poem has multiple titles. Not implemented.''),
      (fresh_poem no_rows_store)\<lparr>executed := executed (fresh_poem no_rows_store) @ [(PoemTitle, [demo_uri])]\<rparr>)"
    by (rule get_title_not_one_row [where db = no_rows_store and title_list = "[]"])
       (simp_all add: no_rows_store_def truthy_opt_def)
  then show ?thesis by simp
qed

text \<open>
  C4 on a store with two titles and a single creation year, and on a store with two
  creation years.
\<close>

theorem multiple_rows_raise_witness:
  "get_title (fresh_poem two_titles_store) =
     (Inl (Exception ''Poem has multiple titles. Not implemented.''),
      (fresh_poem two_titles_store)\<lparr>executed := [(PoemTitle, [demo_uri])]\<rparr>) \<and>
   get_creation_year (fresh_poem two_titles_store) =
     (Inr (Some (PStr ''1691'')),
      (fresh_poem two_titles_store)\<lparr>executed := [(PoemCreationYear, [demo_uri])],
         creation_year := Some (PStr ''1691'')\<rparr>) \<and>
   get_creation_year (fresh_poem two_rows_store) =
     (Inl (Exception ''Multiple values for creation year. Not implemented.''),
      (fresh_poem two_rows_store)\<lparr>executed := [(PoemCreationYear, [demo_uri])]\<rparr>)"
proof -
  have t: "\<not> truthy_opt (title (fresh_poem two_titles_store))"
    and y: "\<not> truthy_opt (creation_year (fresh_poem two_rows_store))"
    and dt: "database (fresh_poem two_titles_store) = Some two_titles_store"
    and dy: "database (fresh_poem two_rows_store) = Some two_rows_store"
    by (simp_all add: truthy_opt_def)
  have ut: "uri_param (fresh_poem two_titles_store) = Inr demo_uri"
    and uy: "uri_param (fresh_poem two_rows_store) = Inr demo_uri" by simp_all
  have ts: "flat_results two_titles_store (executed (fresh_poem two_titles_store)) PoemTitle [demo_uri]
      = Inr [PStr ''first'', PStr ''second'']"
    by (simp add: two_titles_store_def)
  have ys: "flat_results two_rows_store (executed (fresh_poem two_rows_store)) PoemCreationYear [demo_uri]
      = Inr [PStr ''first'', PStr ''second'']"
    by (simp add: two_rows_store_def)
  have two: "1 < length [PStr ''first'', PStr ''second'']" by simp
  have single: "get_creation_year (fresh_poem two_titles_store) =
     (Inr (Some (PStr ''1691'')),
      (fresh_poem two_titles_store)\<lparr>executed := [(PoemCreationYear, [demo_uri])],
         creation_year := Some (PStr ''1691'')\<rparr>)"
    by (simp add: get_creation_year_def execute_flat_def truthy_opt_def two_titles_store_def)
  from multiple_rows_raise
    [of "fresh_poem two_titles_store" two_titles_store demo_uri "[PStr ''first'', PStr ''second'']"
        "fresh_poem two_rows_store" two_rows_store demo_uri "[PStr ''first'', PStr ''second'']"]
    t y dt dy ut uy ts ys two single
  show ?thesis by simp
qed

text \<open>C7 on a store with two scansion URIs.\<close>

theorem first_scansion_uri_taken_witness:
  "get_automatic_scansion_uri (fresh_poem two_rows_store) =
     (Inr (PStr ''first''),
      (fresh_poem two_rows_store)\<lparr>executed := [(PoemAutomaticScansionUri, [demo_uri])]\<rparr>)"
proof -
  have d: "database (fresh_poem two_rows_store) = Some two_rows_store"
    by simp
  have u: "uri_param (fresh_poem two_rows_store) = Inr demo_uri" by simp
  have rs: "flat_results two_rows_store (executed (fresh_poem two_rows_store))
      PoemAutomaticScansionUri [demo_uri] = Inr (PStr ''first'' # [PStr ''second''])"
    by (simp add: two_rows_store_def)
  from first_scansion_uri_taken [OF d u rs] show ?thesis by simp
qed

lemmas step_defs = get_automatic_scansion_uri_def get_number_of_stanzas_def get_number_of_lines_def
  get_number_of_words_def get_number_of_lines_in_stanzas_def get_rhyme_schemes_of_stanzas_def
  get_number_of_syllables_def get_number_of_syllables_in_stanzas_def
  get_number_of_words_in_stanzas_def get_grammatical_stress_patterns_in_stanzas_def
  get_metrical_patterns_in_stanzas_def grouped_query_def execute_sparql_query_def first_of_def
  map_action_def and_then_def execute_flat_def execute_rows_def index_def syllable_type_prop_def
  jvals_def jgroups_def

lemma couplet_analysis_run:
  "collect analysis_steps (fresh_poem couplet_store) =
     (Inr couplet_analysis, (fresh_poem couplet_store)\<lparr>executed := couplet_queries\<rparr>)"
  by (simp add: analysis_steps_def step_defs eval_simps pattern_row_def couplet_store_def
      couplet_analysis_def couplet_queries_def)

text \<open>C5 on the couplet: the first call asks thirteen queries, the second none.\<close>

theorem get_analysis_cached_witness:
  "get_analysis (fresh_poem couplet_store) =
     (Inr (Some couplet_analysis),
      (fresh_poem couplet_store)\<lparr>executed := couplet_queries,
         automatic_analysis := Some couplet_analysis\<rparr>) \<and>
   get_analysis ((fresh_poem couplet_store)\<lparr>executed := couplet_queries,
         automatic_analysis := Some couplet_analysis\<rparr>) =
     (Inr (Some couplet_analysis),
      (fresh_poem couplet_store)\<lparr>executed := couplet_queries,
         automatic_analysis := Some couplet_analysis\<rparr>)"
proof -
  have first: "get_analysis (fresh_poem couplet_store) =
     (Inr (Some couplet_analysis),
      (fresh_poem couplet_store)\<lparr>executed := couplet_queries,
         automatic_analysis := Some couplet_analysis\<rparr>)"
    by (simp add: get_analysis_def couplet_analysis_run truthy_list_def)
  from get_analysis_cached [OF first] first show ?thesis by simp
qed


text \<open>C6 on a store whose third query fails: nothing is cached.\<close>

theorem failed_step_aborts_analysis_witness:
  "get_analysis (fresh_poem failing_store) =
     (Inl (StoreError ''connection lost''),
      (fresh_poem failing_store)\<lparr>executed :=
         [(PoemAutomaticScansionUri, [demo_uri]), (PoemCountStanzas, [demo_uri]),
          (PoemCountLines, [demo_uri])]\<rparr>) \<and>
   automatic_analysis ((fresh_poem failing_store)\<lparr>executed :=
         [(PoemAutomaticScansionUri, [demo_uri]), (PoemCountStanzas, [demo_uri]),
          (PoemCountLines, [demo_uri])]\<rparr>) = None"
proof -
  have cache: "\<not> truthy_list (automatic_analysis (fresh_poem failing_store))"
    by (simp add: truthy_list_def)
  have steps: "analysis_steps =
      [(''source'', map_action (\<lambda>u. JDict [(''uri'', JVal u)]) get_automatic_scansion_uri),
       (''numOfStanzas'', map_action JVal get_number_of_stanzas)]
      @ (''numOfLines'', map_action JVal get_number_of_lines) # drop 3 analysis_steps"
    by (simp add: analysis_steps_def)
  have pre: "collect
      [(''source'', map_action (\<lambda>u. JDict [(''uri'', JVal u)]) get_automatic_scansion_uri),
       (''numOfStanzas'', map_action JVal get_number_of_stanzas)] (fresh_poem failing_store) =
      (Inr [(''source'', JDict [(''uri'', JVal (PStr ''http://postdata.linhd.uned.es/resource/sc_1''))]),
            (''numOfStanzas'', JVal (PInt 1))],
       (fresh_poem failing_store)\<lparr>executed :=
         [(PoemAutomaticScansionUri, [demo_uri]), (PoemCountStanzas, [demo_uri])]\<rparr>)"
    by (simp add: step_defs failing_store_def couplet_store_def)
  have step: "map_action JVal get_number_of_lines
      ((fresh_poem failing_store)\<lparr>executed :=
         [(PoemAutomaticScansionUri, [demo_uri]), (PoemCountStanzas, [demo_uri])]\<rparr>) =
      (Inl (StoreError ''connection lost''),
       (fresh_poem failing_store)\<lparr>executed :=
         [(PoemAutomaticScansionUri, [demo_uri]), (PoemCountStanzas, [demo_uri]),
          (PoemCountLines, [demo_uri])]\<rparr>)"
    by (simp add: step_defs failing_store_def couplet_store_def)
  from failed_step_aborts_analysis [OF cache steps pre step] show ?thesis by simp
qed

subsection \<open>Metadata\<close>

lemma get_poetry_lab_url_frame:
  "get_poetry_lab_url base_url lang s = (r, s1) \<Longrightarrow> s1 = s\<lparr>poetry_lab_url := poetry_lab_url s1\<rparr>"
  by (auto simp: get_poetry_lab_url_def Let_def split: if_splits sum.splits)

lemma uri_param_poetry_lab_url [simp]: "uri_param (s\<lparr>poetry_lab_url := x\<rparr>) = uri_param s"
  by (simp add: uri_param_def)

lemma load_authors_no_rows:
  assumes "\<not> truthy_list (author_uris s)" and "database s = Some db" and "uri_param s = Inr u"
    and "flat_results db (executed s) PoemAuthorUris [u] = Inr []"
  shows "load_authors s =
           (Inr False, s\<lparr>executed := executed s @ [(PoemAuthorUris, [u])], author_uris := None,
                          authors := None\<rparr>)"
  using assms
  by (simp add: load_authors_def get_author_uris_zero_rows [OF assms] truthy_list_def)

lemma get_metadata_no_authors:
  assumes "\<not> truthy_list (author_uris s)" and "database s = Some db" and "uri_param s = Inr u"
    and "flat_results db (executed s) PoemAuthorUris [u] = Inr []"
    and url: "get_poetry_lab_url ''http://poetry.linhd.uned.es:3000'' ''en'' s = (Inr source, s1)"
  shows "get_metadata author_get_metadata True include_analysis s =
     (if include_analysis then
        (case get_analysis (s1\<lparr>executed := executed s @ [(PoemAuthorUris, [u])],
                                author_uris := None, authors := None\<rparr>) of
           (Inl e, s5) \<Rightarrow> (Inl e, s5)
         | (Inr analysis, s5) \<Rightarrow>
             (Inr [(''id'', jstr (poem_id s)), (''uri'', jstr (uri s)), (''name'', jstr (name s)),
                   (''source'', jstr source), (''sourceUri'', JVal (PStr ''POSTDATA Poetry Lab'')),
                   (''analysis'', (case analysis of None \<Rightarrow> JNone | Some a \<Rightarrow> JDict a))], s5))
      else
        (Inr [(''id'', jstr (poem_id s)), (''uri'', jstr (uri s)), (''name'', jstr (name s)),
              (''source'', jstr source), (''sourceUri'', JVal (PStr ''POSTDATA Poetry Lab''))],
         s1\<lparr>executed := executed s @ [(PoemAuthorUris, [u])], author_uris := None,
             authors := None\<rparr>))"
proof -
  from get_poetry_lab_url_frame [OF url] obtain x where s1: "s1 = s\<lparr>poetry_lab_url := x\<rparr>" by blast
  have "load_authors s1 =
      (Inr False, s1\<lparr>executed := executed s1 @ [(PoemAuthorUris, [u])], author_uris := None,
                       authors := None\<rparr>)"
    by (rule load_authors_no_rows [where db = db]) (simp_all add: s1 assms(1-4))
  moreover have "executed s1 = executed s" by (simp add: s1)
  ultimately show ?thesis
    by (simp add: get_metadata_def url Let_def split: prod.splits sum.splits)
qed

text \<open>
  C10. When no author URIs are cached and the author query yields no row,
  \<open>get_metadata\<close> with \<open>include_authors=True\<close> returns a dictionary without the key
  \<open>authors\<close> whenever it returns, with or without the analysis; without the analysis it
  returns the five basic items as soon as the poetry lab URL can be built.
\<close>

theorem no_authors_key_without_authors:
  assumes "\<not> truthy_list (author_uris s)" and "database s = Some db" and "uri_param s = Inr u"
    and "flat_results db (executed s) PoemAuthorUris [u] = Inr []"
  shows "(\<forall>md s'. get_metadata author_get_metadata True include_analysis s = (Inr md, s') \<longrightarrow>
            ''authors'' \<notin> fst ` set md) \<and>
         (\<forall>source s1.
            get_poetry_lab_url ''http://poetry.linhd.uned.es:3000'' ''en'' s = (Inr source, s1) \<longrightarrow>
            get_metadata author_get_metadata True False s =
              (Inr [(''id'', jstr (poem_id s)), (''uri'', jstr (uri s)), (''name'', jstr (name s)),
                    (''source'', jstr source), (''sourceUri'', JVal (PStr ''POSTDATA Poetry Lab''))],
               s1\<lparr>executed := executed s @ [(PoemAuthorUris, [u])], author_uris := None,
                   authors := None\<rparr>))"
proof (intro conjI allI impI)
  fix md s'
  assume run: "get_metadata author_get_metadata True include_analysis s = (Inr md, s')"
  obtain r s1 where url: "get_poetry_lab_url ''http://poetry.linhd.uned.es:3000'' ''en'' s = (r, s1)"
    by (cases "get_poetry_lab_url ''http://poetry.linhd.uned.es:3000'' ''en'' s")
  show "''authors'' \<notin> fst ` set md"
  proof (cases r)
    case (Inl e)
    with run url show ?thesis by (simp add: get_metadata_def)
  next
    case (Inr source)
    with url have "get_poetry_lab_url ''http://poetry.linhd.uned.es:3000'' ''en'' s = (Inr source, s1)"
      by simp
    from run [unfolded get_metadata_no_authors [OF assms this]]
    show ?thesis by (auto split: if_splits prod.splits sum.splits)
  qed
next
  fix source s1
  assume "get_poetry_lab_url ''http://poetry.linhd.uned.es:3000'' ''en'' s = (Inr source, s1)"
  from get_metadata_no_authors [OF assms this, of author_get_metadata False]
  show "get_metadata author_get_metadata True False s =
              (Inr [(''id'', jstr (poem_id s)), (''uri'', jstr (uri s)), (''name'', jstr (name s)),
                    (''source'', jstr source), (''sourceUri'', JVal (PStr ''POSTDATA Poetry Lab''))],
               s1\<lparr>executed := executed s @ [(PoemAuthorUris, [u])], author_uris := None,
                   authors := None\<rparr>)"
    by simp
qed

lemma demo_poetry_lab_url:
  "get_poetry_lab_url ''http://poetry.linhd.uned.es:3000'' ''en'' (fresh_poem db) =
     (Inr (Some demo_source), (fresh_poem db)\<lparr>poetry_lab_url := Some demo_source\<rparr>)"
  by (simp add: get_poetry_lab_url_def split_uri_in_author_poem_parts_def truthy_list_def
      demo_uri_def demo_source_def index_def Let_def)

text \<open>C10 on the example poem and the store without rows.\<close>

theorem no_authors_key_without_authors_witness:
  "get_metadata quiet_author True False (fresh_poem no_rows_store) =
     (Inr demo_metadata,
      (fresh_poem no_rows_store)\<lparr>poetry_lab_url := Some demo_source,
         executed := [(PoemAuthorUris, [demo_uri])], author_uris := None, authors := None\<rparr>) \<and>
   ''authors'' \<notin> fst ` set demo_metadata"
proof -
  have a: "\<not> truthy_list (author_uris (fresh_poem no_rows_store))"
    by (simp add: truthy_list_def)
  have d: "database (fresh_poem no_rows_store) = Some no_rows_store" by simp
  have u: "uri_param (fresh_poem no_rows_store) = Inr demo_uri" by simp
  have rs: "flat_results no_rows_store (executed (fresh_poem no_rows_store)) PoemAuthorUris [demo_uri]
      = Inr []"
    by (simp add: no_rows_store_def)
  from no_authors_key_without_authors [OF a d u rs, of quiet_author False]
    demo_poetry_lab_url [of no_rows_store]
  have "get_metadata quiet_author True False (fresh_poem no_rows_store) =
     (Inr demo_metadata,
      (fresh_poem no_rows_store)\<lparr>poetry_lab_url := Some demo_source,
         executed := [(PoemAuthorUris, [demo_uri])], author_uris := None, authors := None\<rparr>)"
    by (simp add: demo_metadata_def jstr_def)
  moreover have "''authors'' \<notin> fst ` set demo_metadata" by (simp add: demo_metadata_def)
  ultimately show ?thesis by simp
qed

end
